theory Spec2Isabelle
  imports Complex_Main
begin

section \<open>Errors\<close>

text \<open>
  The exception classes the filter throws, each carrying its message.
  \<open>option_not_found\<close> is what \<open>Options::getValueOrThrow\<close> raises for a missing key.
\<close>

datatype error =
    pdal_error string
  | impedance_invalid string
  | runtime_error string
  | option_not_found string

section \<open>Printing an int into a message\<close>

definition digit_char :: "nat \<Rightarrow> char" where
  "digit_char n = ''0123456789'' ! (n mod 10)"

fun string_of_nat :: "nat \<Rightarrow> string" where
  "string_of_nat n =
     (if n < 10 then [digit_char n]
      else string_of_nat (n div 10) @ [digit_char n])"

declare string_of_nat.simps [simp del]

definition string_of_int :: "int \<Rightarrow> string" where
  "string_of_int i =
     (if i < 0 then CHR ''-'' # string_of_nat (nat (- i)) else string_of_nat (nat i))"

section \<open>Dimensions and schemas\<close>

text \<open>
  Modelled from the spec: the dimension registry and the schema (Dimension.hpp and
  Schema.hpp are not among the sources). The identifiers are those the sources name;
  \<open>Id_Other\<close> stands for the rest of the registry's catalogue. A schema is the ordered
  sequence of its dimensions, and \<open>hasDimension\<close> tells whether one is among them.
\<close>

datatype DimensionId =
    Id_X_f64 | Id_Y_f64 | Id_Z_f64 | Id_Time_u64 | Id_Red_u8 | Id_Blue_u8 | Id_Other nat

type_synonym Schema = "DimensionId list"

definition hasDimension :: "Schema \<Rightarrow> DimensionId \<Rightarrow> bool" where
  "hasDimension schema d = (d \<in> set schema)"

fun index_from :: "nat \<Rightarrow> Schema \<Rightarrow> DimensionId \<Rightarrow> nat option" where
  "index_from i [] d = None"
| "index_from i (x # xs) d = (if x = d then Some i else index_from (Suc i) xs d)"

text \<open>
  Modelled from the spec: \<open>Schema::getDimensionIndex\<close> (Schema.hpp is not among the
  sources) is the position of the dimension in the schema, and an error for an absent
  dimension.
\<close>

definition getDimensionIndex :: "Schema \<Rightarrow> DimensionId \<Rightarrow> error + nat" where
  "getDimensionIndex schema d =
     (case index_from 0 schema d of
        None \<Rightarrow> Inl (pdal_error ''Requested dimension field not present'')
      | Some i \<Rightarrow> Inr i)"

section \<open>Bounds, spatial references, stages\<close>

text \<open>
  Modelled from the spec: the bounds (Bounds.hpp is not among the sources) are an
  axis-aligned box, a minimum and a maximum on each of three axes; a box whose minimum
  exceeds its maximum is representable.
\<close>

record 'c Bounds =
  minx :: 'c
  miny :: 'c
  minz :: 'c
  maxx :: 'c
  maxy :: 'c
  maxz :: 'c

text \<open>The six-argument constructor \<open>Bounds<double>(minx, miny, minz, maxx, maxy, maxz)\<close>.\<close>

definition Bounds_xyz :: "'c \<Rightarrow> 'c \<Rightarrow> 'c \<Rightarrow> 'c \<Rightarrow> 'c \<Rightarrow> 'c \<Rightarrow> 'c Bounds" where
  "Bounds_xyz x0 y0 z0 x1 y1 z1 =
     \<lparr>minx = x0, miny = y0, minz = z0, maxx = x1, maxy = y1, maxz = z1\<rparr>"

text \<open>The accessors by axis number; the filter calls them with 0, 1 and 2 only.\<close>

definition getMinimum :: "'c Bounds \<Rightarrow> nat \<Rightarrow> 'c" where
  "getMinimum b i = (if i = 0 then minx b else if i = 1 then miny b else minz b)"

definition getMaximum :: "'c Bounds \<Rightarrow> nat \<Rightarrow> 'c" where
  "getMaximum b i = (if i = 0 then maxx b else if i = 1 then maxy b else maxz b)"

text \<open>The invariant of a valid box: minimum at most maximum on each axis.\<close>

definition Bounds_ordered :: "('c::ord) Bounds \<Rightarrow> bool" where
  "Bounds_ordered b = (minx b \<le> maxx b \<and> miny b \<le> maxy b \<and> minz b \<le> maxz b)"

text \<open>
  Modelled from the spec: a spatial reference (SpatialReference.hpp is not among the
  sources) is opaque to the filter, which only asks it for its well-known text, with the
  compound form allowed (\<open>getWKT(eCompoundOK)\<close>) or in the default form (\<open>getWKT()\<close>).
\<close>

record SpatialReference =
  getWKT_eCompoundOK :: string
  getWKT :: string

definition SpatialReference_default :: SpatialReference where
  "SpatialReference_default = \<lparr>getWKT_eCompoundOK = [], getWKT = []\<rparr>"

text \<open>
  Modelled from the spec: what a stage declares (Stage.hpp is not among the sources): its
  schema, its bounds and its spatial reference.
\<close>

record 'c Stage =
  schema :: Schema
  bounds :: "'c Bounds"
  spatialReference :: SpatialReference

definition Stage_default :: "('c::zero) Stage" where
  "Stage_default =
     \<lparr>schema = [], bounds = Bounds_xyz 0 0 0 0 0 0, spatialReference = SpatialReference_default\<rparr>"

section \<open>The build and the external transform service\<close>

text \<open>
  \<open>PDAL_HAVE_GDAL\<close> is the build flag. The other fields are the external collaborators,
  taken as parameters: the library's operations (\<open>'h\<close> is its transform handle, \<open>'c\<close> the
  type of a coordinate, a double in the program), the diagnostic text it reports, and
  the upstream stage's own \<open>initialize()\<close>.
  \<open>OCTTransform\<close> is given the handle pointer as the filter holds it (possibly null)
  and one coordinate triple; it returns its int result and the triple as it leaves it.
\<close>

record ('h, 'c) env =
  PDAL_HAVE_GDAL :: bool
  OSRSetFromUserInput :: "string \<Rightarrow> int"
  OCTNewCoordinateTransformation :: "string \<Rightarrow> string \<Rightarrow> 'h option"
  OCTTransform :: "'h option \<Rightarrow> 'c \<times> 'c \<times> 'c \<Rightarrow> int \<times> ('c \<times> 'c \<times> 'c)"
  CPLGetLastErrorMsg :: string
  prevStage_initialize :: "'c Stage \<Rightarrow> error + 'c Stage"

definition OGRERR_NONE :: int where
  "OGRERR_NONE = 0"

section \<open>The reprojection filter\<close>

text \<open>
  \<open>stage\<close> is the filter's own base-class part, \<open>prevStage\<close> the upstream stage. A
  coordinate-system handle is modelled by the text it was set from (the empty text for a
  new handle), a null pointer by \<open>None\<close>.
\<close>

record ('h, 'c) ReprojectionFilter =
  stage :: "'c Stage"
  prevStage :: "'c Stage"
  m_inSRS :: SpatialReference
  m_outSRS :: SpatialReference
  m_inferInputSRS :: bool
  m_in_ref_ptr :: "string option"
  m_out_ref_ptr :: "string option"
  m_transform_ptr :: "'h option"

text \<open>\<open>ReprojectionFilter::transform\<close>: the coordinates are updated in place unless it throws.\<close>

definition transform ::
  "('h, 'c) env \<Rightarrow> ('h, 'c) ReprojectionFilter \<Rightarrow> 'c \<times> 'c \<times> 'c \<Rightarrow> error + ('c \<times> 'c \<times> 'c)" where
  "transform env f p =
     (if PDAL_HAVE_GDAL env then
        (let (ret, p') = OCTTransform env (m_transform_ptr f) p in
         if ret = 0 then
           Inl (pdal_error (''Could not project point for ReprojectionTransform::''
                  @ CPLGetLastErrorMsg env @ string_of_int ret))
         else Inr p')
      else Inr p)"

text \<open>
  \<open>ReprojectionFilter::updateBounds\<close>: the two corners are transformed inside the
  \<open>try\<close> block; a \<open>pdal_error\<close> from either returns before \<open>setBounds\<close>.
\<close>

definition setBounds ::
  "('h, 'c) ReprojectionFilter \<Rightarrow> 'c Bounds \<Rightarrow> ('h, 'c) ReprojectionFilter" where
  "setBounds f b = f\<lparr>stage := (stage f)\<lparr>bounds := b\<rparr>\<rparr>"

definition getBounds :: "('h, 'c) ReprojectionFilter \<Rightarrow> 'c Bounds" where
  "getBounds f = bounds (stage f)"

definition updateBounds ::
  "('h, 'c) env \<Rightarrow> ('h, 'c) ReprojectionFilter \<Rightarrow> ('h, 'c) ReprojectionFilter" where
  "updateBounds env f =
     (let oldBounds = getBounds f;
          pmin = (getMinimum oldBounds 0, getMinimum oldBounds 1, getMinimum oldBounds 2);
          pmax = (getMaximum oldBounds 0, getMaximum oldBounds 1, getMaximum oldBounds 2)
      in case transform env f pmin of
           Inl e \<Rightarrow> f
         | Inr (minx', miny', minz') \<Rightarrow>
             (case transform env f pmax of
                Inl e \<Rightarrow> f
              | Inr (maxx', maxy', maxz') \<Rightarrow>
                  setBounds f (Bounds_xyz minx' miny' minz' maxx' maxy' maxz')))"

text \<open>\<open>ReprojectionFilter::checkImpedance\<close>: \<open>None\<close> is the normal return.\<close>

definition getSchema :: "('h, 'c) ReprojectionFilter \<Rightarrow> Schema" where
  "getSchema f = schema (stage f)"

definition checkImpedance :: "('h, 'c) ReprojectionFilter \<Rightarrow> error option" where
  "checkImpedance f =
     (let schema = getSchema f in
      if \<not> hasDimension schema Id_X_f64 \<or>
         \<not> hasDimension schema Id_Y_f64 \<or>
         \<not> hasDimension schema Id_Z_f64
      then Some (impedance_invalid ''Reprojection filter requires X,Y,Z dimensions as doubles'')
      else None)"

text \<open>
  Modelled from the spec: \<open>Filter::initialize\<close> (Filter.cpp is not among the sources) runs
  the upstream stage's initialization and takes the upstream's schema, bounds and spatial
  reference as the filter's own.
\<close>

definition Filter_initialize ::
  "('h, 'c) env \<Rightarrow> ('h, 'c) ReprojectionFilter \<Rightarrow> error option \<times> ('h, 'c) ReprojectionFilter" where
  "Filter_initialize env f =
     (case prevStage_initialize env (prevStage f) of
        Inl e \<Rightarrow> (Some e, f)
      | Inr p \<Rightarrow> (None, f\<lparr>stage := p, prevStage := p\<rparr>))"

definition setSpatialReference ::
  "('h, 'c) ReprojectionFilter \<Rightarrow> SpatialReference \<Rightarrow> ('h, 'c) ReprojectionFilter" where
  "setSpatialReference f s = f\<lparr>stage := (stage f)\<lparr>spatialReference := s\<rparr>\<rparr>"

text \<open>
  The part of \<open>ReprojectionFilter::initialize\<close> compiled under \<open>PDAL_HAVE_GDAL\<close>. The
  result pairs the exception thrown, if any, with the filter as the call leaves it.
\<close>

definition initialize_gdal ::
  "('h, 'c) env \<Rightarrow> ('h, 'c) ReprojectionFilter \<Rightarrow> error option \<times> ('h, 'c) ReprojectionFilter" where
  "initialize_gdal env f0 =
     (let f1 = f0\<lparr>m_in_ref_ptr := Some [], m_out_ref_ptr := Some []\<rparr>;
          result = OSRSetFromUserInput env (getWKT_eCompoundOK (m_inSRS f1))
      in if result \<noteq> OGRERR_NONE then
           (Some (runtime_error
              (''Could not import input spatial reference for ReprojectionFilter:: ''
                 @ CPLGetLastErrorMsg env @ '' code: '' @ string_of_int result
                 @ '' wkt: '' @ [CHR 39] @ getWKT (m_inSRS f1) @ [CHR 39])), f1)
         else
           (let f2 = f1\<lparr>m_in_ref_ptr := Some (getWKT_eCompoundOK (m_inSRS f1))\<rparr>;
                result = OSRSetFromUserInput env (getWKT_eCompoundOK (m_outSRS f2))
            in if result \<noteq> OGRERR_NONE then
                 (Some (runtime_error
                    (''Could not import output spatial reference for ReprojectionFilter:: ''
                       @ CPLGetLastErrorMsg env @ '' code: '' @ string_of_int result
                       @ '' wkt: '' @ [CHR 39] @ getWKT (m_outSRS f2) @ [CHR 39])), f2)
               else
                 (let f3 = f2\<lparr>m_out_ref_ptr := Some (getWKT_eCompoundOK (m_outSRS f2))\<rparr>;
                      f4 = f3\<lparr>m_transform_ptr :=
                             OCTNewCoordinateTransformation env
                               (getWKT_eCompoundOK (m_inSRS f3)) (getWKT_eCompoundOK (m_outSRS f3))\<rparr>
                  in if m_transform_ptr f4 = None then
                       (Some (runtime_error
                          ''Could not construct CoordinateTransformation in ReprojectionFilter:: ''), f4)
                     else (None, f4))))"

text \<open>\<open>ReprojectionFilter::initialize\<close>.\<close>

definition initialize ::
  "('h, 'c) env \<Rightarrow> ('h, 'c) ReprojectionFilter \<Rightarrow> error option \<times> ('h, 'c) ReprojectionFilter" where
  "initialize env f0 =
     (case Filter_initialize env f0 of
        (Some e, f1) \<Rightarrow> (Some e, f1)
      | (None, f1) \<Rightarrow>
          (case checkImpedance f1 of
             Some e \<Rightarrow> (Some e, f1)
           | None \<Rightarrow>
               (let f2 = (if m_inferInputSRS f1
                          then f1\<lparr>m_inSRS := spatialReference (prevStage f1)\<rparr> else f1)
                in case (if PDAL_HAVE_GDAL env then initialize_gdal env f2 else (None, f2)) of
                     (Some e, f3) \<Rightarrow> (Some e, f3)
                   | (None, f3) \<Rightarrow>
                       (None, updateBounds env (setSpatialReference f3 (m_outSRS f3))))))"

section \<open>Construction from options\<close>

text \<open>
  Modelled from the spec: the options bag (Options.hpp is not among the sources) maps a
  key to its value, here the spatial reference read from it; \<open>getValueOrThrow\<close> raises
  for a missing key.
\<close>

type_synonym Options = "string \<rightharpoonup> SpatialReference"

definition hasOption :: "Options \<Rightarrow> string \<Rightarrow> bool" where
  "hasOption options k = (options k \<noteq> None)"

definition getValueOrThrow :: "Options \<Rightarrow> string \<Rightarrow> error + SpatialReference" where
  "getValueOrThrow options k =
     (case options k of None \<Rightarrow> Inl (option_not_found k) | Some v \<Rightarrow> Inr v)"

text \<open>The base-class constructor \<open>Filter(prevStage, options)\<close> and the unset members.\<close>

definition Filter_new ::
  "('c::zero) Stage \<Rightarrow> SpatialReference \<Rightarrow> ('h, 'c) ReprojectionFilter" where
  "Filter_new prev outSRS =
     \<lparr>stage = Stage_default, prevStage = prev,
      m_inSRS = SpatialReference_default, m_outSRS = outSRS, m_inferInputSRS = False,
      m_in_ref_ptr = None, m_out_ref_ptr = None, m_transform_ptr = None\<rparr>"

text \<open>\<open>ReprojectionFilter(Stage& prevStage, const Options& options)\<close>.\<close>

definition ReprojectionFilter_options ::
  "('c::zero) Stage \<Rightarrow> Options \<Rightarrow> error + ('h, 'c) ReprojectionFilter" where
  "ReprojectionFilter_options prev options =
     (case getValueOrThrow options ''out_srs'' of
        Inl e \<Rightarrow> Inl e
      | Inr outSRS \<Rightarrow>
          (let f = Filter_new prev outSRS in
           if hasOption options ''in_srs'' then
             (case getValueOrThrow options ''in_srs'' of
                Inl e \<Rightarrow> Inl e
              | Inr inSRS \<Rightarrow> Inr (f\<lparr>m_inSRS := inSRS, m_inferInputSRS := False\<rparr>))
           else Inr (f\<lparr>m_inferInputSRS := True\<rparr>)))"

text \<open>\<open>ReprojectionFilter(Stage& prevStage, const SpatialReference& outSRS)\<close>.\<close>

definition ReprojectionFilter_out ::
  "('c::zero) Stage \<Rightarrow> SpatialReference \<Rightarrow> ('h, 'c) ReprojectionFilter" where
  "ReprojectionFilter_out prev outSRS = (Filter_new prev outSRS)\<lparr>m_inferInputSRS := True\<rparr>"

text \<open>\<open>ReprojectionFilter(Stage& prevStage, const SpatialReference& inSRS, const SpatialReference& outSRS)\<close>.\<close>

definition ReprojectionFilter_in_out ::
  "('c::zero) Stage \<Rightarrow> SpatialReference \<Rightarrow> SpatialReference \<Rightarrow> ('h, 'c) ReprojectionFilter" where
  "ReprojectionFilter_in_out prev inSRS outSRS =
     (Filter_new prev outSRS)\<lparr>m_inSRS := inSRS, m_inferInputSRS := False\<rparr>"

text \<open>
  Building the stage of a pipeline: construct the filter from the options, then call
  \<open>initialize()\<close> on it.
\<close>

definition build_filter ::
  "('h, 'c::zero) env \<Rightarrow> 'c Stage \<Rightarrow> Options \<Rightarrow> error + ('h, 'c) ReprojectionFilter" where
  "build_filter env prev options =
     (case ReprojectionFilter_options prev options of
        Inl e \<Rightarrow> Inl e
      | Inr f \<Rightarrow> (case initialize env f of (Some e, f') \<Rightarrow> Inl e | (None, f') \<Rightarrow> Inr f'))"

section \<open>Point buffers\<close>

text \<open>
  Modelled from the spec: the point buffer (PointBuffer.hpp is not among the sources) has
  a fixed capacity, a count of valid points and one stored value per point index and
  dimension index. \<open>getField\<close> and \<open>setField\<close> require the point index to be below
  the capacity; \<open>setNumPoints\<close> stores the count.
\<close>

record 'v PointBuffer =
  getSchemaLayout :: Schema
  getCapacity :: nat
  getNumPoints :: nat
  m_data :: "nat \<Rightarrow> nat \<Rightarrow> 'v"

definition getField :: "'v PointBuffer \<Rightarrow> nat \<Rightarrow> nat \<Rightarrow> error + 'v" where
  "getField data pointIndex fieldIndex =
     (if pointIndex < getCapacity data then Inr (m_data data pointIndex fieldIndex)
      else Inl (pdal_error ''point index out of range''))"

definition setField :: "'v PointBuffer \<Rightarrow> nat \<Rightarrow> nat \<Rightarrow> 'v \<Rightarrow> error + 'v PointBuffer" where
  "setField data pointIndex fieldIndex v =
     (if pointIndex < getCapacity data
      then Inr (data\<lparr>m_data := (m_data data)(pointIndex := (m_data data pointIndex)(fieldIndex := v))\<rparr>)
      else Inl (pdal_error ''point index out of range''))"

definition setNumPoints :: "'v PointBuffer \<Rightarrow> nat \<Rightarrow> 'v PointBuffer" where
  "setNumPoints data n = data\<lparr>getNumPoints := n\<rparr>"

section \<open>Bulk processing\<close>

text \<open>
  The body of the loop of \<open>ReprojectionFilter::processBuffer\<close> for one point index. The
  result pairs the exception thrown, if any, with the buffer as the body leaves it.
\<close>

definition processPoint ::
  "('h, 'c) env \<Rightarrow> ('h, 'c) ReprojectionFilter \<Rightarrow> nat \<Rightarrow> nat \<Rightarrow> nat \<Rightarrow> nat \<Rightarrow>
     'c PointBuffer \<Rightarrow> error option \<times> 'c PointBuffer" where
  "processPoint env f indexX indexY indexZ pointIndex data =
     (case getField data pointIndex indexX of Inl e \<Rightarrow> (Some e, data) | Inr x \<Rightarrow>
     (case getField data pointIndex indexY of Inl e \<Rightarrow> (Some e, data) | Inr y \<Rightarrow>
     (case getField data pointIndex indexZ of Inl e \<Rightarrow> (Some e, data) | Inr z \<Rightarrow>
     (case transform env f (x, y, z) of Inl e \<Rightarrow> (Some e, data) | Inr (x', y', z') \<Rightarrow>
     (case setField data pointIndex indexX x' of Inl e \<Rightarrow> (Some e, data) | Inr d1 \<Rightarrow>
     (case setField d1 pointIndex indexY y' of Inl e \<Rightarrow> (Some e, d1) | Inr d2 \<Rightarrow>
     (case setField d2 pointIndex indexZ z' of Inl e \<Rightarrow> (Some e, d2) | Inr d3 \<Rightarrow>
        (None, setNumPoints d3 (pointIndex + 1)))))))))"

text \<open>
  The loop \<open>for (pointIndex = 0; pointIndex < numPoints; pointIndex++)\<close>, from any
  \<open>pointIndex\<close>. The index is a uint32 in the program; it stays below \<open>numPoints\<close>,
  itself a uint32, so \<open>pointIndex + 1\<close> never wraps.
\<close>

function processBuffer_loop ::
  "('h, 'c) env \<Rightarrow> ('h, 'c) ReprojectionFilter \<Rightarrow> nat \<Rightarrow> nat \<Rightarrow> nat \<Rightarrow> nat \<Rightarrow> nat \<Rightarrow>
     'c PointBuffer \<Rightarrow> error option \<times> 'c PointBuffer" where
  "processBuffer_loop env f indexX indexY indexZ numPoints pointIndex data =
     (if pointIndex < numPoints then
        (case processPoint env f indexX indexY indexZ pointIndex data of
           (Some e, data') \<Rightarrow> (Some e, data')
         | (None, data') \<Rightarrow>
             processBuffer_loop env f indexX indexY indexZ numPoints (pointIndex + 1) data')
      else (None, data))"
  by pat_completeness auto
termination
  by (relation "measure (\<lambda>(env, f, ix, iy, iz, n, i, d). n - i)") auto

declare processBuffer_loop.simps [simp del]

text \<open>\<open>ReprojectionFilter::processBuffer\<close>.\<close>

definition processBuffer ::
  "('h, 'c) env \<Rightarrow> ('h, 'c) ReprojectionFilter \<Rightarrow> 'c PointBuffer \<Rightarrow>
     error option \<times> 'c PointBuffer" where
  "processBuffer env f data =
     (let numPoints = getNumPoints data;
          schema = getSchemaLayout data
      in (case getDimensionIndex schema Id_X_f64 of Inl e \<Rightarrow> (Some e, data) | Inr indexX \<Rightarrow>
         (case getDimensionIndex schema Id_Y_f64 of Inl e \<Rightarrow> (Some e, data) | Inr indexY \<Rightarrow>
         (case getDimensionIndex schema Id_Z_f64 of Inl e \<Rightarrow> (Some e, data) | Inr indexZ \<Rightarrow>
            processBuffer_loop env f indexX indexY indexZ numPoints 0 data))))"

section \<open>The faux reader and its iterators\<close>

text \<open>
  Modelled from the spec: the faux reader and its iterators (pdal/drivers/faux/Reader and
  Iterator are not among the sources; only their unit test is). A reader is given by its
  bounds, its number of points and its mode. In Random mode the coordinates of a point
  are what \<open>m_draw\<close> gives for its sequence position and axis, the spec requiring both
  iterators to be position-pure. The arithmetic on coordinates is that of the coordinate
  type, of which nothing is assumed.
\<close>

datatype Mode = Constant | Random | Ramp

text \<open>A stored field: a 64-bit float (X, Y, Z) or a 64-bit unsigned integer (the time).\<close>

datatype 'c FieldValue = F64 'c | U64 nat

record 'c Reader =
  m_bounds :: "'c Bounds"
  m_numPoints :: nat
  m_mode :: Mode
  m_draw :: "nat \<Rightarrow> nat \<Rightarrow> 'c"

record Iterator =
  m_index :: nat

text \<open>The conversion of a count or position to a coordinate.\<close>

primrec double_of_nat :: "nat \<Rightarrow> 'c::{zero,one,plus}" where
  "double_of_nat 0 = 0"
| "double_of_nat (Suc n) = double_of_nat n + 1"

text \<open>
  Modelled from the spec: in Ramp mode a coordinate of the point at position \<open>i\<close> of
  \<open>N\<close> is \<open>min + i * (max - min) / (N - 1)\<close>, and the minimum when \<open>N = 1\<close>.
\<close>

definition ramp :: "'c \<Rightarrow> 'c \<Rightarrow> nat \<Rightarrow> nat \<Rightarrow> 'c::{zero,one,plus,minus,times,inverse}" where
  "ramp lo hi i N =
     (if N = 1 then lo else lo + double_of_nat i * (hi - lo) / double_of_nat (N - 1))"

text \<open>Modelled from the spec: the coordinates of the point at a sequence position.\<close>

definition faux_xyz :: "('c::{zero,one,plus,minus,times,inverse}) Reader \<Rightarrow> nat \<Rightarrow> 'c \<times> 'c \<times> 'c" where
  "faux_xyz r i =
     (let b = m_bounds r; N = m_numPoints r in
      case m_mode r of
        Constant \<Rightarrow> (minx b, miny b, minz b)
      | Random \<Rightarrow> (m_draw r i 0, m_draw r i 1, m_draw r i 2)
      | Ramp \<Rightarrow> (ramp (minx b) (maxx b) i N, ramp (miny b) (maxy b) i N,
                 ramp (minz b) (maxz b) i N))"

text \<open>
  Modelled from the spec: writing the point of a sequence position into a buffer slot,
  laid out as X, Y, Z, Time; the time field is the sequence position.
\<close>

definition faux_setPoint ::
  "('c::{zero,one,plus,minus,times,inverse}) Reader \<Rightarrow> nat \<Rightarrow> nat \<Rightarrow>
     'c FieldValue PointBuffer \<Rightarrow> 'c FieldValue PointBuffer" where
  "faux_setPoint r position pointIndex data =
     (let (x, y, z) = faux_xyz r position in
      data\<lparr>m_data := (m_data data)(pointIndex :=
              (m_data data pointIndex)(0 := F64 x, 1 := F64 y, 2 := F64 z, 3 := U64 position))\<rparr>)"

text \<open>
  Modelled from the spec: filling \<open>n\<close> slots from \<open>pointIndex\<close> on with the points
  that follow position \<open>index\<close>, the valid count being set after each point.
\<close>

primrec faux_fill ::
  "('c::{zero,one,plus,minus,times,inverse}) Reader \<Rightarrow> nat \<Rightarrow> nat \<Rightarrow> nat \<Rightarrow>
     'c FieldValue PointBuffer \<Rightarrow> 'c FieldValue PointBuffer" where
  "faux_fill r index 0 pointIndex data = data"
| "faux_fill r index (Suc n) pointIndex data =
     faux_fill r index n (pointIndex + 1)
       (setNumPoints (faux_setPoint r (index + pointIndex) pointIndex data) (pointIndex + 1))"

text \<open>
  Modelled from the spec: \<open>read(buffer)\<close> fills the buffer, or as much of it as the
  reader has points left, advances the iterator and returns the number of points read.
\<close>

definition faux_read ::
  "('c::{zero,one,plus,minus,times,inverse}) Reader \<Rightarrow> Iterator \<Rightarrow> 'c FieldValue PointBuffer \<Rightarrow>
     nat \<times> Iterator \<times> 'c FieldValue PointBuffer" where
  "faux_read r it data =
     (let numToRead = min (getCapacity data) (m_numPoints r - m_index it);
          data' = faux_fill r (m_index it) numToRead 0 (setNumPoints data 0)
      in (numToRead, it\<lparr>m_index := m_index it + numToRead\<rparr>, data'))"

text \<open>Modelled from the spec: both kinds of iterator read in this way.\<close>

definition Sequential_read ::
  "('c::{zero,one,plus,minus,times,inverse}) Reader \<Rightarrow> Iterator \<Rightarrow> 'c FieldValue PointBuffer \<Rightarrow>
     nat \<times> Iterator \<times> 'c FieldValue PointBuffer" where
  "Sequential_read r it data = faux_read r it data"

definition Random_read ::
  "('c::{zero,one,plus,minus,times,inverse}) Reader \<Rightarrow> Iterator \<Rightarrow> 'c FieldValue PointBuffer \<Rightarrow>
     nat \<times> Iterator \<times> 'c FieldValue PointBuffer" where
  "Random_read r it data = faux_read r it data"

text \<open>Modelled from the spec: \<open>seek(position)\<close> moves the iterator and returns the new position.\<close>

definition Random_seek :: "'c Reader \<Rightarrow> Iterator \<Rightarrow> nat \<Rightarrow> nat \<times> Iterator" where
  "Random_seek r it position = (position, it\<lparr>m_index := position\<rparr>)"

text \<open>Modelled from the spec: a new iterator stands at position 0.\<close>

definition createIterator :: Iterator where
  "createIterator = \<lparr>m_index = 0\<rparr>"

text \<open>
  A sequential iterator read into each buffer of a list in turn: the number of points it
  has consumed, and the iterator after the last read.
\<close>

fun Sequential_consume ::
  "('c::{zero,one,plus,minus,times,inverse}) Reader \<Rightarrow> Iterator \<Rightarrow> 'c FieldValue PointBuffer list \<Rightarrow>
     nat \<times> Iterator" where
  "Sequential_consume r it [] = (0, it)"
| "Sequential_consume r it (data # rest) =
     (case Sequential_read r it data of
        (numRead, it', data') \<Rightarrow>
          (case Sequential_consume r it' rest of (later, it'') \<Rightarrow> (numRead + later, it'')))"

section \<open>Notions used to state the properties\<close>

text \<open>
  The X, Y and Z values of one point; the value a field holds once its point has been
  reprojected; and a buffer whose points from \<open>i\<close> up to \<open>k\<close> have been reprojected,
  the count having followed.
\<close>

definition point_xyz :: "'c PointBuffer \<Rightarrow> nat \<Rightarrow> nat \<Rightarrow> nat \<Rightarrow> nat \<Rightarrow> 'c \<times> 'c \<times> 'c" where
  "point_xyz data ix iy iz p = (m_data data p ix, m_data data p iy, m_data data p iz)"

definition reprojected_field ::
  "('h, 'c) env \<Rightarrow> ('h, 'c) ReprojectionFilter \<Rightarrow> nat \<Rightarrow> nat \<Rightarrow> nat \<Rightarrow> 'c PointBuffer \<Rightarrow> nat \<Rightarrow> nat \<Rightarrow> 'c" where
  "reprojected_field env f ix iy iz data p d =
     (case transform env f (point_xyz data ix iy iz p) of
        Inl e \<Rightarrow> m_data data p d
      | Inr (x', y', z') \<Rightarrow>
          if d = iz then z' else if d = iy then y' else if d = ix then x' else m_data data p d)"

definition reprojected_upto ::
  "('h, 'c) env \<Rightarrow> ('h, 'c) ReprojectionFilter \<Rightarrow> nat \<Rightarrow> nat \<Rightarrow> nat \<Rightarrow> nat \<Rightarrow> nat \<Rightarrow> 'c PointBuffer \<Rightarrow> 'c PointBuffer" where
  "reprojected_upto env f ix iy iz i k data =
     data\<lparr>getNumPoints := (if i < k then k else getNumPoints data),
          m_data := (\<lambda>p d. if i \<le> p \<and> p < k then reprojected_field env f ix iy iz data p d
                           else m_data data p d)\<rparr>"

text \<open>The exception \<open>transform\<close> throws when the library returns 0.\<close>

definition project_error :: "('h, 'c) env \<Rightarrow> error" where
  "project_error env =
     pdal_error (''Could not project point for ReprojectionTransform::''
                  @ CPLGetLastErrorMsg env @ ''0'')"

text \<open>The two extreme corners of a box.\<close>

definition min_corner :: "'c Bounds \<Rightarrow> 'c \<times> 'c \<times> 'c" where
  "min_corner b = (minx b, miny b, minz b)"

definition max_corner :: "'c Bounds \<Rightarrow> 'c \<times> 'c \<times> 'c" where
  "max_corner b = (maxx b, maxy b, maxz b)"

text \<open>The input spatial reference \<open>initialize\<close> works with: inferred from upstream, or the one given.\<close>

definition effective_inSRS :: "('h, 'c) ReprojectionFilter \<Rightarrow> 'c Stage \<Rightarrow> SpatialReference" where
  "effective_inSRS f p = (if m_inferInputSRS f then spatialReference p else m_inSRS f)"

text \<open>
  \<open>initialize\<close> gets as far as \<open>updateBounds\<close> in a build with the library: the upstream
  stage initializes to \<open>p\<close>, whose schema passes the impedance check, both spatial
  references are accepted and the library makes the transform \<open>h\<close>.
\<close>

definition reaches_updateBounds ::
  "('h, 'c) env \<Rightarrow> ('h, 'c) ReprojectionFilter \<Rightarrow> 'c Stage \<Rightarrow> 'h \<Rightarrow> bool" where
  "reaches_updateBounds env f p h \<longleftrightarrow>
     PDAL_HAVE_GDAL env \<and>
     prevStage_initialize env (prevStage f) = Inr p \<and>
     hasDimension (schema p) Id_X_f64 \<and> hasDimension (schema p) Id_Y_f64 \<and>
     hasDimension (schema p) Id_Z_f64 \<and>
     OSRSetFromUserInput env (getWKT_eCompoundOK (effective_inSRS f p)) = OGRERR_NONE \<and>
     OSRSetFromUserInput env (getWKT_eCompoundOK (m_outSRS f)) = OGRERR_NONE \<and>
     OCTNewCoordinateTransformation env
       (getWKT_eCompoundOK (effective_inSRS f p)) (getWKT_eCompoundOK (m_outSRS f)) = Some h"

text \<open>The filter as \<open>initialize\<close> then hands it to \<open>updateBounds\<close>.\<close>

definition before_updateBounds ::
  "('h, 'c) ReprojectionFilter \<Rightarrow> 'c Stage \<Rightarrow> 'h \<Rightarrow> ('h, 'c) ReprojectionFilter" where
  "before_updateBounds f p h =
     f\<lparr>stage := p\<lparr>spatialReference := m_outSRS f\<rparr>, prevStage := p,
       m_inSRS := effective_inSRS f p,
       m_in_ref_ptr := Some (getWKT_eCompoundOK (effective_inSRS f p)),
       m_out_ref_ptr := Some (getWKT_eCompoundOK (m_outSRS f)),
       m_transform_ptr := Some h\<rparr>"

text \<open>The value the faux reader stores in field \<open>d\<close> for a sequence position; \<open>old\<close> beyond the four fields.\<close>

definition faux_field ::
  "('c::{zero,one,plus,minus,times,inverse}) Reader \<Rightarrow> nat \<Rightarrow> nat \<Rightarrow> 'c FieldValue \<Rightarrow> 'c FieldValue" where
  "faux_field r position d old =
     (if d = 0 then F64 (fst (faux_xyz r position))
      else if d = 1 then F64 (fst (snd (faux_xyz r position)))
      else if d = 2 then F64 (snd (snd (faux_xyz r position)))
      else if d = 3 then U64 position else old)"

section \<open>Example values\<close>

text \<open>
  Concrete stages, filters, buffers and a stand-in for the library, on which the
  properties below are instantiated: the stand-in rejects every point whose X is 30 and
  shifts the others by (100, 200, 300); \<open>ex_env_flip\<close> negates every coordinate.
\<close>

definition ex_srs :: "string \<Rightarrow> SpatialReference" where
  "ex_srs w = \<lparr>getWKT_eCompoundOK = w, getWKT = w\<rparr>"

definition ex_prev :: "int Stage" where
  "ex_prev = \<lparr>schema = [Id_X_f64, Id_Y_f64, Id_Z_f64, Id_Time_u64],
              bounds = Bounds_xyz 1 2 3 101 102 103,
              spatialReference = ex_srs ''EPSG:26915''\<rparr>"

definition ex_env :: "(unit, int) env" where
  "ex_env = \<lparr>PDAL_HAVE_GDAL = True,
             OSRSetFromUserInput = (\<lambda>w. if w = [] then 5 else 0),
             OCTNewCoordinateTransformation = (\<lambda>a b. Some ()),
             OCTTransform = (\<lambda>h (x, y, z). if x = 30 then (0, (x, y, z))
                                             else (1, (x + 100, y + 200, z + 300))),
             CPLGetLastErrorMsg = ''tolerance condition error'',
             prevStage_initialize = Inr\<rparr>"

definition ex_filter :: "(unit, int) ReprojectionFilter" where
  "ex_filter = (ReprojectionFilter_out ex_prev (ex_srs ''EPSG:4326''))\<lparr>m_transform_ptr := Some ()\<rparr>"

definition ex_data :: "int PointBuffer" where
  "ex_data = \<lparr>getSchemaLayout = [Id_X_f64, Id_Y_f64, Id_Z_f64, Id_Time_u64],
              getCapacity = 4, getNumPoints = 3,
              m_data = (\<lambda>p d. int (10 * (p + 1) + d))\<rparr>"

definition ex_env_no_gdal :: "(unit, int) env" where
  "ex_env_no_gdal = ex_env\<lparr>PDAL_HAVE_GDAL := False\<rparr>"

definition ex_data_ok :: "int PointBuffer" where
  "ex_data_ok = ex_data\<lparr>getNumPoints := 2\<rparr>"

definition ex_new :: "(unit, int) ReprojectionFilter" where
  "ex_new = ReprojectionFilter_out ex_prev (ex_srs ''EPSG:4326'')"

definition ex_prev_30 :: "int Stage" where
  "ex_prev_30 = ex_prev\<lparr>bounds := Bounds_xyz 1 2 3 30 102 103\<rparr>"

definition ex_new_30 :: "(unit, int) ReprojectionFilter" where
  "ex_new_30 = ReprojectionFilter_out ex_prev_30 (ex_srs ''EPSG:4326'')"

definition ex_prev_rgb :: "int Stage" where
  "ex_prev_rgb = ex_prev\<lparr>schema := [Id_Red_u8, Id_Blue_u8]\<rparr>"

definition ex_new_rgb :: "(unit, int) ReprojectionFilter" where
  "ex_new_rgb = ReprojectionFilter_out ex_prev_rgb (ex_srs ''EPSG:4326'')"

definition ex_env_flip :: "(unit, int) env" where
  "ex_env_flip = ex_env\<lparr>OCTTransform := (\<lambda>h (x, y, z). (1, (- x, - y, - z)))\<rparr>"

definition ex_options_out :: Options where
  "ex_options_out = [''out_srs'' \<mapsto> ex_srs ''EPSG:4326'']"

definition ex_reader :: "rat Reader" where
  "ex_reader = \<lparr>m_bounds = Bounds_xyz 1 2 3 101 152 203, m_numPoints = 750, m_mode = Ramp,
                m_draw = (\<lambda>i a. 0)\<rparr>"

definition ex_buf :: "nat \<Rightarrow> rat FieldValue PointBuffer" where
  "ex_buf c = \<lparr>getSchemaLayout = [Id_X_f64, Id_Y_f64, Id_Z_f64, Id_Time_u64],
               getCapacity = c, getNumPoints = 0, m_data = (\<lambda>p d. U64 0)\<rparr>"

section \<open>Dimension indices\<close>

lemma index_from_bounds:
  "index_from i xs d = Some j \<Longrightarrow> i \<le> j \<and> j - i < length xs \<and> xs ! (j - i) = d"
proof (induction xs arbitrary: i)
  case Nil
  then show ?case by simp
next
  case (Cons x xs)
  show ?case
  proof (cases "x = d")
    case True
    with Cons.prems show ?thesis by simp
  next
    case False
    with Cons.prems have "index_from (Suc i) xs d = Some j" by simp
    from Cons.IH [OF this] have "Suc i \<le> j" "j - Suc i < length xs" "xs ! (j - Suc i) = d"
      by auto
    moreover from \<open>Suc i \<le> j\<close> have "j - i = Suc (j - Suc i)" by simp
    ultimately show ?thesis by simp
  qed
qed

lemma index_from_None: "index_from i xs d = None \<longleftrightarrow> d \<notin> set xs"
  by (induction xs arbitrary: i) auto

lemma getDimensionIndex_nth:
  "getDimensionIndex s d = Inr i \<Longrightarrow> i < length s \<and> s ! i = d"
  using index_from_bounds [of 0 s d i]
  by (auto simp: getDimensionIndex_def split: option.splits)

lemma getDimensionIndex_distinct:
  "getDimensionIndex s a = Inr i \<Longrightarrow> getDimensionIndex s b = Inr j \<Longrightarrow> a \<noteq> b \<Longrightarrow> i \<noteq> j"
  using getDimensionIndex_nth by blast

lemma hasDimension_index:
  "hasDimension s d \<longleftrightarrow> (\<exists>i. getDimensionIndex s d = Inr i)"
proof -
  have "index_from 0 s d \<noteq> None \<longleftrightarrow> d \<in> set s"
    by (simp add: index_from_None)
  then show ?thesis
    by (auto simp: hasDimension_def getDimensionIndex_def split: option.splits)
qed

section \<open>The loop of processBuffer\<close>

lemma processPoint_in_capacity:
  assumes "p < getCapacity data"
  shows "processPoint env f ix iy iz p data =
     (case transform env f (point_xyz data ix iy iz p) of
        Inl e \<Rightarrow> (Some e, data)
      | Inr q \<Rightarrow> (None, data\<lparr>getNumPoints := p + 1,
            m_data := (\<lambda>p' d. if p' = p then reprojected_field env f ix iy iz data p d
                              else m_data data p' d)\<rparr>))"
  using assms
  by (auto simp: processPoint_def getField_def setField_def setNumPoints_def point_xyz_def
      reprojected_field_def fun_eq_iff split: sum.splits prod.splits)

lemma processBuffer_loop_reprojects:
  assumes "i \<le> k" and "k \<le> n" and "n \<le> getCapacity data"
    and "\<forall>j. i \<le> j \<and> j < k \<longrightarrow> (\<exists>q. transform env f (point_xyz data ix iy iz j) = Inr q)"
    and "k < n \<longrightarrow> transform env f (point_xyz data ix iy iz k) = Inl e"
  shows "processBuffer_loop env f ix iy iz n i data =
           (if k < n then Some e else None, reprojected_upto env f ix iy iz i k data)"
  using assms
proof (induction "k - i" arbitrary: i data)
  case 0
  then have ik: "i = k" by simp
  have "(\<lambda>p d. if k \<le> p \<and> p < k then reprojected_field env f ix iy iz data p d
                else m_data data p d) = m_data data"
    by (auto simp: fun_eq_iff)
  then have same: "reprojected_upto env f ix iy iz k k data = data"
    by (simp add: reprojected_upto_def)
  show ?case
  proof (cases "k < n")
    case True
    with 0 ik have "k < getCapacity data" by simp
    with True 0 ik same show ?thesis
      by (simp add: processBuffer_loop.simps [of _ _ _ _ _ n k] processPoint_in_capacity)
  next
    case False
    with ik same show ?thesis
      by (simp add: processBuffer_loop.simps [of _ _ _ _ _ n k])
  qed
next
  case (Suc m)
  then have lt: "i < k" and cap: "i < getCapacity data" and inn: "i < n" by auto
  from Suc.prems lt obtain q where q: "transform env f (point_xyz data ix iy iz i) = Inr q"
    by blast
  define data1 where "data1 = data\<lparr>getNumPoints := i + 1,
            m_data := (\<lambda>p' d. if p' = i then reprojected_field env f ix iy iz data i d
                              else m_data data p' d)\<rparr>"
  have step: "processPoint env f ix iy iz i data = (None, data1)"
    using cap q by (simp add: processPoint_in_capacity data1_def)
  have unch: "point_xyz data1 ix iy iz j = point_xyz data ix iy iz j" if "j \<noteq> i" for j
    using that by (simp add: data1_def point_xyz_def)
  have rec: "processBuffer_loop env f ix iy iz n (i + 1) data1 =
           (if k < n then Some e else None, reprojected_upto env f ix iy iz (i + 1) k data1)"
  proof (rule Suc.hyps(1))
    show "m = k - (i + 1)" using Suc.hyps(2) by simp
    show "i + 1 \<le> k" using lt by simp
    show "k \<le> n" by fact
    show "n \<le> getCapacity data1" using Suc.prems(3) by (simp add: data1_def)
    show "\<forall>j. i + 1 \<le> j \<and> j < k \<longrightarrow> (\<exists>q. transform env f (point_xyz data1 ix iy iz j) = Inr q)"
      using Suc.prems(4) unch by auto
    show "k < n \<longrightarrow> transform env f (point_xyz data1 ix iy iz k) = Inl e"
      using Suc.prems(5) unch lt by auto
  qed
  have cell: "m_data data1 p d = (if p = i then reprojected_field env f ix iy iz data i d
                                 else m_data data p d)" for p d
    by (simp add: data1_def)
  have field: "reprojected_field env f ix iy iz data1 p d = reprojected_field env f ix iy iz data p d"
    if "p \<noteq> i" for p d
    using that by (simp add: reprojected_field_def unch cell split: sum.splits prod.splits)
  have cells: "(\<lambda>p d. if i + 1 \<le> p \<and> p < k then reprojected_field env f ix iy iz data1 p d
                     else m_data data1 p d) =
               (\<lambda>p d. if i \<le> p \<and> p < k then reprojected_field env f ix iy iz data p d
                     else m_data data p d)"
  proof (intro ext)
    fix p d
    show "(if i + 1 \<le> p \<and> p < k then reprojected_field env f ix iy iz data1 p d
           else m_data data1 p d) =
          (if i \<le> p \<and> p < k then reprojected_field env f ix iy iz data p d
           else m_data data p d)"
    proof (cases "p = i")
      case True
      with lt show ?thesis by (simp add: cell)
    next
      case False
      then have "i + 1 \<le> p \<longleftrightarrow> i \<le> p" by auto
      with False show ?thesis by (simp add: cell field)
    qed
  qed
  have count: "(if i + 1 < k then k else getNumPoints data1) = k"
    using lt by (auto simp: data1_def)
  have "reprojected_upto env f ix iy iz (i + 1) k data1 =
          data1\<lparr>getNumPoints := k,
            m_data := (\<lambda>p d. if i \<le> p \<and> p < k then reprojected_field env f ix iy iz data p d
                     else m_data data p d)\<rparr>"
    unfolding reprojected_upto_def cells count ..
  also have "\<dots> = reprojected_upto env f ix iy iz i k data"
    using lt by (simp add: reprojected_upto_def data1_def)
  finally have same: "reprojected_upto env f ix iy iz (i + 1) k data1 =
      reprojected_upto env f ix iy iz i k data" .
  show ?case
    using inn step rec same by (simp add: processBuffer_loop.simps [of _ _ _ _ _ n i])
qed

section \<open>A failure in mid-buffer\<close>

lemma string_of_int_0: "string_of_int 0 = ''0''"
  by (simp add: string_of_int_def string_of_nat.simps [of 0] digit_char_def)

lemma transform_gdal:
  assumes "PDAL_HAVE_GDAL env"
  shows "transform env f p =
     (if fst (OCTTransform env (m_transform_ptr f) p) = 0 then Inl (project_error env)
      else Inr (snd (OCTTransform env (m_transform_ptr f) p)))"
  using assms
  by (simp add: transform_def project_error_def string_of_int_0 split: prod.splits)

lemma point_xyz_reprojected:
  assumes "ix \<noteq> iy" and "ix \<noteq> iz" and "iy \<noteq> iz" and "i \<le> p" and "p < k"
    and "transform env f (point_xyz data ix iy iz p) = Inr q"
  shows "point_xyz (reprojected_upto env f ix iy iz i k data) ix iy iz p = q"
  using assms
  by (cases q) (simp add: point_xyz_def reprojected_upto_def reprojected_field_def)

lemma processBuffer_indices:
  assumes "getDimensionIndex (getSchemaLayout data) Id_X_f64 = Inr ix"
    and "getDimensionIndex (getSchemaLayout data) Id_Y_f64 = Inr iy"
    and "getDimensionIndex (getSchemaLayout data) Id_Z_f64 = Inr iz"
  shows "processBuffer env f data =
           processBuffer_loop env f ix iy iz (getNumPoints data) 0 data"
    and "ix \<noteq> iy" and "ix \<noteq> iz" and "iy \<noteq> iz"
  using assms getDimensionIndex_distinct [of "getSchemaLayout data"]
  by (simp_all add: processBuffer_def)

text \<open>
  C1: in a buffer of N valid points, when the library transforms points 0 to k - 1 and
  rejects point k, with 0 < k < N, \<open>processBuffer\<close> throws, and the buffer it leaves has
  a valid count of k and holds, in the X, Y and Z fields of each point below k, the
  transformed values of that point: the count is set after every point.
\<close>

theorem processBuffer_mid_failure:
  assumes cap: "getNumPoints data \<le> getCapacity data"
    and X: "getDimensionIndex (getSchemaLayout data) Id_X_f64 = Inr ix"
    and Y: "getDimensionIndex (getSchemaLayout data) Id_Y_f64 = Inr iy"
    and Z: "getDimensionIndex (getSchemaLayout data) Id_Z_f64 = Inr iz"
    and gdal: "PDAL_HAVE_GDAL env"
    and k: "0 < k" "k < getNumPoints data"
    and ok: "\<forall>i<k. fst (OCTTransform env (m_transform_ptr f) (point_xyz data ix iy iz i)) \<noteq> 0"
    and bad: "fst (OCTTransform env (m_transform_ptr f) (point_xyz data ix iy iz k)) = 0"
  shows "fst (processBuffer env f data) = Some (project_error env) \<and>
         getNumPoints (snd (processBuffer env f data)) = k \<and>
         (\<forall>i<k. point_xyz (snd (processBuffer env f data)) ix iy iz i =
                  snd (OCTTransform env (m_transform_ptr f) (point_xyz data ix iy iz i)))"
proof -
  note idx = processBuffer_indices [OF X Y Z]
  have succ: "transform env f (point_xyz data ix iy iz i) =
                Inr (snd (OCTTransform env (m_transform_ptr f) (point_xyz data ix iy iz i)))"
    if "i < k" for i
    using that ok by (simp add: transform_gdal [OF gdal])
  have fail: "transform env f (point_xyz data ix iy iz k) = Inl (project_error env)"
    using bad by (simp add: transform_gdal [OF gdal])
  have "\<forall>j. 0 \<le> j \<and> j < k \<longrightarrow> (\<exists>q. transform env f (point_xyz data ix iy iz j) = Inr q)"
    using succ by blast
  moreover have "k < getNumPoints data \<longrightarrow>
      transform env f (point_xyz data ix iy iz k) = Inl (project_error env)"
    using fail by simp
  ultimately have "processBuffer_loop env f ix iy iz (getNumPoints data) 0 data =
      (if k < getNumPoints data then Some (project_error env) else None,
       reprojected_upto env f ix iy iz 0 k data)"
    using k cap by (intro processBuffer_loop_reprojects) simp_all
  then have run: "processBuffer env f data =
               (Some (project_error env), reprojected_upto env f ix iy iz 0 k data)"
    using k by (simp add: idx(1))
  have count: "getNumPoints (reprojected_upto env f ix iy iz 0 k data) = k"
    using k by (simp add: reprojected_upto_def)
  have vals: "point_xyz (reprojected_upto env f ix iy iz 0 k data) ix iy iz i =
                snd (OCTTransform env (m_transform_ptr f) (point_xyz data ix iy iz i))"
    if "i < k" for i
    using point_xyz_reprojected [OF idx(2-4) _ that succ [OF that]] by simp
  show ?thesis
    using run count vals by simp
qed

lemma ex_data_indices:
  "getDimensionIndex (getSchemaLayout ex_data) Id_X_f64 = Inr 0"
  "getDimensionIndex (getSchemaLayout ex_data) Id_Y_f64 = Inr 1"
  "getDimensionIndex (getSchemaLayout ex_data) Id_Z_f64 = Inr 2"
  by (simp_all add: ex_data_def getDimensionIndex_def)

lemma ex_data_point:
  "point_xyz ex_data ix iy iz p =
     (int (10 * (p + 1) + ix), int (10 * (p + 1) + iy), int (10 * (p + 1) + iz))"
  by (simp add: point_xyz_def ex_data_def)

lemma ex_env_OCTTransform:
  "OCTTransform ex_env h (x, y, z) =
     (if x = 30 then (0, (x, y, z)) else (1, (x + 100, y + 200, z + 300)))"
  by (simp add: ex_env_def)

theorem processBuffer_mid_failure_witness:
  "fst (processBuffer ex_env ex_filter ex_data) = Some (project_error ex_env) \<and>
   getNumPoints (snd (processBuffer ex_env ex_filter ex_data)) = 2 \<and>
   point_xyz (snd (processBuffer ex_env ex_filter ex_data)) 0 1 2 0 = (110, 211, 312) \<and>
   point_xyz (snd (processBuffer ex_env ex_filter ex_data)) 0 1 2 1 = (120, 221, 322)"
proof -
  have cap: "getNumPoints ex_data \<le> getCapacity ex_data" by (simp add: ex_data_def)
  have gdal: "PDAL_HAVE_GDAL ex_env" by (simp add: ex_env_def)
  have k: "0 < (2::nat)" "2 < getNumPoints ex_data" by (simp_all add: ex_data_def)
  have ok: "\<forall>i<2. fst (OCTTransform ex_env (m_transform_ptr ex_filter) (point_xyz ex_data 0 1 2 i)) \<noteq> 0"
    by (auto simp: ex_data_point ex_env_OCTTransform)
  have bad: "fst (OCTTransform ex_env (m_transform_ptr ex_filter) (point_xyz ex_data 0 1 2 2)) = 0"
    by (simp add: ex_data_point ex_env_OCTTransform)
  from processBuffer_mid_failure [OF cap ex_data_indices gdal k ok bad]
  have res: "fst (processBuffer ex_env ex_filter ex_data) = Some (project_error ex_env)"
    "getNumPoints (snd (processBuffer ex_env ex_filter ex_data)) = 2"
    "\<forall>i<2. point_xyz (snd (processBuffer ex_env ex_filter ex_data)) 0 1 2 i =
                  snd (OCTTransform ex_env (m_transform_ptr ex_filter) (point_xyz ex_data 0 1 2 i))"
    by blast+
  from res(3) have "point_xyz (snd (processBuffer ex_env ex_filter ex_data)) 0 1 2 0 = (110, 211, 312)"
    and "point_xyz (snd (processBuffer ex_env ex_filter ex_data)) 0 1 2 1 = (120, 221, 322)"
    by (simp_all add: ex_data_point ex_env_OCTTransform)
  with res(1,2) show ?thesis by simp
qed

section \<open>Per-point failures\<close>

lemma first_rejected:
  fixes bad :: "nat \<Rightarrow> bool"
  assumes "bad k"
  obtains k' where "k' \<le> k" and "bad k'" and "\<forall>j<k'. \<not> bad j"
proof
  show "(LEAST j. bad j) \<le> k" using assms by (rule Least_le)
  show "bad (LEAST j. bad j)" using assms by (rule LeastI)
  show "\<forall>j<LEAST j. bad j. \<not> bad j" using not_less_Least by blast
qed

lemma transform_gdal_accepts:
  assumes "PDAL_HAVE_GDAL env" and "fst (OCTTransform env (m_transform_ptr f) p) \<noteq> 0"
  shows "\<exists>q. transform env f p = Inr q"
proof
  show "transform env f p = Inr (snd (OCTTransform env (m_transform_ptr f) p))"
    using assms by (simp add: transform_gdal)
qed

text \<open>
  C4: when the library rejects a coordinate triple (returns 0), \<open>transform\<close> throws a
  \<open>pdal_error\<close> whose message carries the library's diagnostic text and the code
  returned, and \<open>processBuffer\<close> on any buffer holding such a point among its valid
  points throws that error: the point is not skipped.
\<close>

theorem transform_rejection_propagates:
  assumes gdal: "PDAL_HAVE_GDAL env"
    and rej: "fst (OCTTransform env (m_transform_ptr f) p) = 0"
  shows "transform env f p =
           Inl (pdal_error (''Could not project point for ReprojectionTransform::''
                  @ CPLGetLastErrorMsg env
                  @ string_of_int (fst (OCTTransform env (m_transform_ptr f) p)))) \<and>
         (\<forall>data ix iy iz k.
            getNumPoints data \<le> getCapacity data \<and>
            getDimensionIndex (getSchemaLayout data) Id_X_f64 = Inr ix \<and>
            getDimensionIndex (getSchemaLayout data) Id_Y_f64 = Inr iy \<and>
            getDimensionIndex (getSchemaLayout data) Id_Z_f64 = Inr iz \<and>
            k < getNumPoints data \<and> point_xyz data ix iy iz k = p \<longrightarrow>
            fst (processBuffer env f data) = Some (project_error env))"
proof (intro conjI allI impI)
  show "transform env f p =
           Inl (pdal_error (''Could not project point for ReprojectionTransform::''
                  @ CPLGetLastErrorMsg env
                  @ string_of_int (fst (OCTTransform env (m_transform_ptr f) p))))"
    using rej by (simp add: transform_gdal [OF gdal] project_error_def string_of_int_0)
next
  fix data ix iy iz k
  assume a: "getNumPoints data \<le> getCapacity data \<and>
            getDimensionIndex (getSchemaLayout data) Id_X_f64 = Inr ix \<and>
            getDimensionIndex (getSchemaLayout data) Id_Y_f64 = Inr iy \<and>
            getDimensionIndex (getSchemaLayout data) Id_Z_f64 = Inr iz \<and>
            k < getNumPoints data \<and> point_xyz data ix iy iz k = p"
  define bad where
    "bad j \<longleftrightarrow> fst (OCTTransform env (m_transform_ptr f) (point_xyz data ix iy iz j)) = 0" for j
  from a rej have "bad k" by (simp add: bad_def)
  then obtain k' where k': "k' \<le> k" "bad k'" "\<forall>j<k'. \<not> bad j"
    by (rule first_rejected)
  have "\<forall>j. 0 \<le> j \<and> j < k' \<longrightarrow> (\<exists>q. transform env f (point_xyz data ix iy iz j) = Inr q)"
    using k'(3) transform_gdal_accepts [OF gdal] by (simp add: bad_def)
  moreover have "k' < getNumPoints data \<longrightarrow>
      transform env f (point_xyz data ix iy iz k') = Inl (project_error env)"
    using k'(2) by (simp add: transform_gdal [OF gdal] bad_def)
  ultimately have "processBuffer_loop env f ix iy iz (getNumPoints data) 0 data =
      (if k' < getNumPoints data then Some (project_error env) else None,
       reprojected_upto env f ix iy iz 0 k' data)"
    using a k'(1) by (intro processBuffer_loop_reprojects) simp_all
  moreover have "processBuffer env f data =
      processBuffer_loop env f ix iy iz (getNumPoints data) 0 data"
    using a by (intro processBuffer_indices(1)) simp_all
  ultimately show "fst (processBuffer env f data) = Some (project_error env)"
    using a k'(1) by simp
qed

theorem transform_rejection_propagates_witness:
  "transform ex_env ex_filter (30, 31, 32) =
     Inl (pdal_error ''Could not project point for ReprojectionTransform::tolerance condition error0'') \<and>
   fst (processBuffer ex_env ex_filter ex_data) =
     Some (pdal_error ''Could not project point for ReprojectionTransform::tolerance condition error0'')"
proof -
  have gdal: "PDAL_HAVE_GDAL ex_env" by (simp add: ex_env_def)
  have rej: "fst (OCTTransform ex_env (m_transform_ptr ex_filter) (30, 31, 32)) = 0"
    by (simp add: ex_env_OCTTransform)
  have msg: "CPLGetLastErrorMsg ex_env = ''tolerance condition error''"
    by (simp add: ex_env_def)
  note th = transform_rejection_propagates [OF gdal rej]
  from th have "fst (processBuffer ex_env ex_filter ex_data) = Some (project_error ex_env)"
    using ex_data_indices ex_data_point [of 0 1 2 2]
    by (elim conjE allE [of _ ex_data] allE [of _ 0] allE [of _ 1] allE [of _ 2]) (simp add: ex_data_def)
  with th show ?thesis
    by (simp add: rej msg project_error_def string_of_int_0)
qed

section \<open>What processBuffer leaves alone\<close>

text \<open>
  C10: when every per-point transform of a buffer succeeds, \<open>processBuffer\<close> returns
  normally, the valid count (like the capacity and the layout) is what it was, and every
  field other than X, Y and Z, and every field of a point at or beyond the valid count,
  holds the value it held.
\<close>

theorem processBuffer_frame:
  assumes cap: "getNumPoints data \<le> getCapacity data"
    and X: "getDimensionIndex (getSchemaLayout data) Id_X_f64 = Inr ix"
    and Y: "getDimensionIndex (getSchemaLayout data) Id_Y_f64 = Inr iy"
    and Z: "getDimensionIndex (getSchemaLayout data) Id_Z_f64 = Inr iz"
    and ok: "\<forall>i<getNumPoints data. \<exists>q. transform env f (point_xyz data ix iy iz i) = Inr q"
  shows "fst (processBuffer env f data) = None \<and>
         getNumPoints (snd (processBuffer env f data)) = getNumPoints data \<and>
         getCapacity (snd (processBuffer env f data)) = getCapacity data \<and>
         getSchemaLayout (snd (processBuffer env f data)) = getSchemaLayout data \<and>
         (\<forall>p d. d \<noteq> ix \<and> d \<noteq> iy \<and> d \<noteq> iz \<longrightarrow>
                m_data (snd (processBuffer env f data)) p d = m_data data p d) \<and>
         (\<forall>p d. getNumPoints data \<le> p \<longrightarrow>
                m_data (snd (processBuffer env f data)) p d = m_data data p d)"
proof -
  let ?n = "getNumPoints data"
  have "\<forall>j. 0 \<le> j \<and> j < ?n \<longrightarrow> (\<exists>q. transform env f (point_xyz data ix iy iz j) = Inr q)"
    using ok by simp
  then have "processBuffer_loop env f ix iy iz ?n 0 data =
      (if ?n < ?n then Some undefined else None, reprojected_upto env f ix iy iz 0 ?n data)"
    using cap by (intro processBuffer_loop_reprojects) simp_all
  then have run: "processBuffer env f data = (None, reprojected_upto env f ix iy iz 0 ?n data)"
    by (simp add: processBuffer_indices(1) [OF X Y Z])
  have other: "reprojected_field env f ix iy iz data p d = m_data data p d"
    if "d \<noteq> ix" "d \<noteq> iy" "d \<noteq> iz" for p d
    using that by (simp add: reprojected_field_def split: sum.splits prod.splits)
  show ?thesis
    unfolding run by (simp add: reprojected_upto_def other)
qed

theorem processBuffer_frame_witness:
  "fst (processBuffer ex_env ex_filter ex_data_ok) = None \<and>
   getNumPoints (snd (processBuffer ex_env ex_filter ex_data_ok)) = 2 \<and>
   m_data (snd (processBuffer ex_env ex_filter ex_data_ok)) 0 3 = 13 \<and>
   m_data (snd (processBuffer ex_env ex_filter ex_data_ok)) 1 3 = 23 \<and>
   m_data (snd (processBuffer ex_env ex_filter ex_data_ok)) 2 0 = 30"
proof -
  have cap: "getNumPoints ex_data_ok \<le> getCapacity ex_data_ok"
    by (simp add: ex_data_ok_def ex_data_def)
  have idx: "getDimensionIndex (getSchemaLayout ex_data_ok) Id_X_f64 = Inr 0"
    "getDimensionIndex (getSchemaLayout ex_data_ok) Id_Y_f64 = Inr 1"
    "getDimensionIndex (getSchemaLayout ex_data_ok) Id_Z_f64 = Inr 2"
    using ex_data_indices by (simp_all add: ex_data_ok_def)
  have gdal: "PDAL_HAVE_GDAL ex_env" by (simp add: ex_env_def)
  have pt: "point_xyz ex_data_ok ix iy iz i = point_xyz ex_data ix iy iz i" for ix iy iz i
    by (simp add: point_xyz_def ex_data_ok_def)
  have "fst (OCTTransform ex_env (m_transform_ptr ex_filter) (point_xyz ex_data_ok 0 1 2 i)) \<noteq> 0"
    if "i < 2" for i
    using that by (simp add: pt ex_data_point ex_env_OCTTransform)
  then have ok: "\<forall>i<getNumPoints ex_data_ok.
      \<exists>q. transform ex_env ex_filter (point_xyz ex_data_ok 0 1 2 i) = Inr q"
    using transform_gdal_accepts [OF gdal] by (simp add: ex_data_ok_def)
  from processBuffer_frame [OF cap idx ok] show ?thesis
    by (simp add: ex_data_ok_def ex_data_def)
qed

section \<open>A build without the transform library\<close>

text \<open>
  C9, as amended: in a build without the library, \<open>transform\<close> returns normally on every
  coordinate triple and leaves it unchanged; it reports no error.
\<close>

theorem transform_without_gdal:
  "\<not> PDAL_HAVE_GDAL env \<Longrightarrow> transform env f p = Inr p"
  by (simp add: transform_def)

theorem transform_without_gdal_witness:
  "transform ex_env_no_gdal ex_filter (4, 5, 6) = Inr (4, 5, 6)"
  using transform_without_gdal [of ex_env_no_gdal ex_filter "(4, 5, 6)"]
  by (simp add: ex_env_no_gdal_def)

theorem transform_without_gdal_counterexample:
  "\<not> (\<exists>e. transform ex_env_no_gdal ex_filter (1, 2, 3) = Inl e) \<and>
   transform ex_env_no_gdal ex_filter (1, 2, 3) = Inr (1, 2, 3)"
  by (simp add: transform_def ex_env_no_gdal_def)

section \<open>Recomputing the bounds at initialize\<close>

lemma initialize_reaches_updateBounds:
  assumes "reaches_updateBounds env f p h"
  shows "initialize env f = (None, updateBounds env (before_updateBounds f p h))"
  using assms
  by (cases f; cases "m_inferInputSRS f")
    (simp_all add: reaches_updateBounds_def initialize_def Filter_initialize_def
      checkImpedance_def getSchema_def initialize_gdal_def Let_def setSpatialReference_def
      before_updateBounds_def effective_inSRS_def)

lemma updateBounds_corners:
  "updateBounds env f =
     (case transform env f (min_corner (getBounds f)) of
        Inl e \<Rightarrow> f
      | Inr (x0, y0, z0) \<Rightarrow>
          (case transform env f (max_corner (getBounds f)) of
             Inl e \<Rightarrow> f
           | Inr (x1, y1, z1) \<Rightarrow> setBounds f (Bounds_xyz x0 y0 z0 x1 y1 z1)))"
  unfolding updateBounds_def min_corner_def max_corner_def getMinimum_def getMaximum_def Let_def
  by (simp cong: sum.case_cong prod.case_cong)

lemma before_updateBounds_sel:
  "getBounds (before_updateBounds f p h) = bounds p"
  "m_transform_ptr (before_updateBounds f p h) = Some h"
  by (simp_all add: before_updateBounds_def getBounds_def)

lemma ex_new_ready: "reaches_updateBounds ex_env ex_new ex_prev ()"
  by (simp add: reaches_updateBounds_def ex_env_def ex_new_def ex_prev_def
      ReprojectionFilter_out_def Filter_new_def hasDimension_def effective_inSRS_def
      ex_srs_def OGRERR_NONE_def)

lemma ex_new_30_ready: "reaches_updateBounds ex_env ex_new_30 ex_prev_30 ()"
  by (simp add: reaches_updateBounds_def ex_env_def ex_new_30_def ex_prev_30_def ex_prev_def
      ReprojectionFilter_out_def Filter_new_def hasDimension_def effective_inSRS_def
      ex_srs_def OGRERR_NONE_def)

text \<open>
  C3: when \<open>initialize\<close> reaches the recomputation of the bounds and the library rejects
  the minimum corner or the maximum corner, \<open>initialize\<close> returns normally and the
  filter's bounds are exactly the upstream bounds it had before.
\<close>

theorem initialize_keeps_bounds_on_failure:
  assumes ready: "reaches_updateBounds env f p h"
    and fails: "fst (OCTTransform env (Some h) (min_corner (bounds p))) = 0 \<or>
                fst (OCTTransform env (Some h) (max_corner (bounds p))) = 0"
  shows "fst (initialize env f) = None \<and> getBounds (snd (initialize env f)) = bounds p"
proof -
  let ?g = "before_updateBounds f p h"
  have gdal: "PDAL_HAVE_GDAL env" using ready by (simp add: reaches_updateBounds_def)
  have "transform env ?g (min_corner (getBounds ?g)) = Inl (project_error env) \<or>
        transform env ?g (max_corner (getBounds ?g)) = Inl (project_error env)"
    using fails by (auto simp: transform_gdal [OF gdal] before_updateBounds_sel)
  then have "updateBounds env ?g = ?g"
    by (auto simp: updateBounds_corners split: sum.splits prod.splits)
  then show ?thesis
    by (simp add: initialize_reaches_updateBounds [OF ready] before_updateBounds_sel)
qed

theorem initialize_keeps_bounds_on_failure_witness:
  "fst (initialize ex_env ex_new_30) = None \<and>
   getBounds (snd (initialize ex_env ex_new_30)) = Bounds_xyz 1 2 3 30 102 103"
proof -
  have "fst (OCTTransform ex_env (Some ()) (max_corner (bounds ex_prev_30))) = 0"
    by (simp add: ex_env_OCTTransform max_corner_def ex_prev_30_def Bounds_xyz_def)
  then have "fst (OCTTransform ex_env (Some ()) (min_corner (bounds ex_prev_30))) = 0 \<or>
        fst (OCTTransform ex_env (Some ()) (max_corner (bounds ex_prev_30))) = 0" ..
  from initialize_keeps_bounds_on_failure [OF ex_new_30_ready this] show ?thesis
    by (simp add: ex_prev_30_def)
qed

text \<open>
  C5, as amended: when \<open>initialize\<close> reaches the recomputation of the bounds and the
  library transforms both corners, the filter's bounds have the transformed minimum corner
  as their minimum and the transformed maximum corner as their maximum, as given: they
  are ordered on every axis exactly when the two transformed corners are.
\<close>

theorem initialize_bounds_from_corners:
  assumes ready: "reaches_updateBounds env f p h"
    and lo: "OCTTransform env (Some h) (min_corner (bounds p)) = (r0, (x0, y0, z0))" "r0 \<noteq> 0"
    and hi: "OCTTransform env (Some h) (max_corner (bounds p)) = (r1, (x1, y1, z1))" "r1 \<noteq> 0"
  shows "fst (initialize env f) = None \<and>
         getBounds (snd (initialize env f)) = Bounds_xyz x0 y0 z0 x1 y1 z1 \<and>
         (Bounds_ordered (getBounds (snd (initialize env f))) \<longleftrightarrow>
            x0 \<le> x1 \<and> y0 \<le> y1 \<and> z0 \<le> z1)"
proof -
  let ?g = "before_updateBounds f p h"
  have gdal: "PDAL_HAVE_GDAL env" using ready by (simp add: reaches_updateBounds_def)
  have "transform env ?g (min_corner (getBounds ?g)) = Inr (x0, y0, z0)"
    and "transform env ?g (max_corner (getBounds ?g)) = Inr (x1, y1, z1)"
    using lo hi by (simp_all add: transform_gdal [OF gdal] before_updateBounds_sel)
  then have "updateBounds env ?g = setBounds ?g (Bounds_xyz x0 y0 z0 x1 y1 z1)"
    by (simp add: updateBounds_corners)
  then show ?thesis
    by (simp add: initialize_reaches_updateBounds [OF ready] getBounds_def setBounds_def
        Bounds_ordered_def Bounds_xyz_def)
qed

theorem initialize_bounds_from_corners_witness:
  "fst (initialize ex_env ex_new) = None \<and>
   getBounds (snd (initialize ex_env ex_new)) = Bounds_xyz 101 202 303 201 302 403 \<and>
   Bounds_ordered (getBounds (snd (initialize ex_env ex_new)))"
proof -
  have lo: "OCTTransform ex_env (Some ()) (min_corner (bounds ex_prev)) = (1, (101, 202, 303))"
    and hi: "OCTTransform ex_env (Some ()) (max_corner (bounds ex_prev)) = (1, (201, 302, 403))"
    by (simp_all add: ex_env_OCTTransform min_corner_def max_corner_def ex_prev_def Bounds_xyz_def)
  from initialize_bounds_from_corners [OF ex_new_ready lo _ hi] show ?thesis
    by (simp add: Bounds_ordered_def Bounds_xyz_def)
qed

theorem initialize_bounds_from_corners_counterexample:
  "Bounds_ordered (bounds ex_prev) \<and>
   fst (initialize ex_env_flip ex_new) = None \<and>
   getBounds (snd (initialize ex_env_flip ex_new)) = Bounds_xyz (- 1) (- 2) (- 3) (- 101) (- 102) (- 103) \<and>
   \<not> Bounds_ordered (getBounds (snd (initialize ex_env_flip ex_new)))"
  by (simp add: initialize_def Filter_initialize_def checkImpedance_def getSchema_def
      initialize_gdal_def Let_def setSpatialReference_def updateBounds_def transform_def
      getBounds_def setBounds_def getMinimum_def getMaximum_def Bounds_ordered_def
      Bounds_xyz_def hasDimension_def OGRERR_NONE_def
      ex_env_flip_def ex_env_def ex_new_def ex_prev_def ReprojectionFilter_out_def
      Filter_new_def ex_srs_def)

section \<open>The impedance check\<close>

text \<open>
  C2: when the upstream schema lacks the 64-bit-float X, Y or Z dimension, \<open>initialize\<close>
  throws \<open>impedance_invalid\<close>, and the two coordinate-system handles and the transform
  handle are as they were before the call (null, for a filter just constructed).
\<close>

theorem initialize_impedance_first:
  assumes up: "prevStage_initialize env (prevStage f) = Inr p"
    and lacks: "\<not> hasDimension (schema p) Id_X_f64 \<or> \<not> hasDimension (schema p) Id_Y_f64 \<or>
                \<not> hasDimension (schema p) Id_Z_f64"
  shows "fst (initialize env f) =
           Some (impedance_invalid ''Reprojection filter requires X,Y,Z dimensions as doubles'') \<and>
         m_in_ref_ptr (snd (initialize env f)) = m_in_ref_ptr f \<and>
         m_out_ref_ptr (snd (initialize env f)) = m_out_ref_ptr f \<and>
         m_transform_ptr (snd (initialize env f)) = m_transform_ptr f"
proof -
  have base: "Filter_initialize env f = (None, f\<lparr>stage := p, prevStage := p\<rparr>)"
    using up by (simp add: Filter_initialize_def)
  have imp: "checkImpedance (f\<lparr>stage := p, prevStage := p\<rparr>) =
      Some (impedance_invalid ''Reprojection filter requires X,Y,Z dimensions as doubles'')"
    using lacks by (auto simp: checkImpedance_def getSchema_def)
  have "initialize env f =
      (Some (impedance_invalid ''Reprojection filter requires X,Y,Z dimensions as doubles''),
       f\<lparr>stage := p, prevStage := p\<rparr>)"
    by (simp add: initialize_def base imp)
  then show ?thesis by simp
qed

theorem initialize_impedance_first_witness:
  "fst (initialize ex_env ex_new_rgb) =
     Some (impedance_invalid ''Reprojection filter requires X,Y,Z dimensions as doubles'') \<and>
   m_in_ref_ptr (snd (initialize ex_env ex_new_rgb)) = None \<and>
   m_out_ref_ptr (snd (initialize ex_env ex_new_rgb)) = None \<and>
   m_transform_ptr (snd (initialize ex_env ex_new_rgb)) = None"
proof -
  have up: "prevStage_initialize ex_env (prevStage ex_new_rgb) = Inr ex_prev_rgb"
    by (simp add: ex_env_def ex_new_rgb_def ReprojectionFilter_out_def Filter_new_def)
  have lacks: "\<not> hasDimension (schema ex_prev_rgb) Id_X_f64 \<or>
               \<not> hasDimension (schema ex_prev_rgb) Id_Y_f64 \<or>
               \<not> hasDimension (schema ex_prev_rgb) Id_Z_f64"
    by (simp add: ex_prev_rgb_def hasDimension_def)
  from initialize_impedance_first [OF up lacks] show ?thesis
    by (simp add: ex_new_rgb_def ReprojectionFilter_out_def Filter_new_def)
qed

section \<open>Construction from options and inference of the input reference\<close>

lemma updateBounds_keeps:
  "m_inSRS (updateBounds env f) = m_inSRS f"
  "prevStage (updateBounds env f) = prevStage f"
  by (simp_all add: updateBounds_corners setBounds_def split: sum.splits prod.splits)

lemma initialize_gdal_keeps:
  "m_inSRS (snd (initialize_gdal env f)) = m_inSRS f"
  "prevStage (snd (initialize_gdal env f)) = prevStage f"
  "m_outSRS (snd (initialize_gdal env f)) = m_outSRS f"
  by (simp_all add: initialize_gdal_def Let_def)

lemma initialize_infers_inSRS:
  assumes "initialize env f = (None, f')" and "m_inferInputSRS f"
  shows "m_inSRS f' = spatialReference (prevStage f')"
proof -
  from assms(1) obtain p where p: "prevStage_initialize env (prevStage f) = Inr p"
    by (cases "prevStage_initialize env (prevStage f)")
      (simp_all add: initialize_def Filter_initialize_def)
  define f2 where "f2 = f\<lparr>stage := p, prevStage := p, m_inSRS := spatialReference p\<rparr>"
  define r where "r = (if PDAL_HAVE_GDAL env then initialize_gdal env f2 else (None, f2))"
  have keep: "m_inSRS (snd r) = spatialReference p" "prevStage (snd r) = p"
    by (simp_all add: r_def initialize_gdal_keeps f2_def)
  from assms p have "(case r of (Some e, f3) \<Rightarrow> (Some e, f3)
      | (None, f3) \<Rightarrow> (None, updateBounds env (setSpatialReference f3 (m_outSRS f3)))) = (None, f')"
    by (cases "PDAL_HAVE_GDAL env")
      (simp_all add: initialize_def Filter_initialize_def r_def f2_def Let_def
        split: option.splits)
  then have "f' = updateBounds env (setSpatialReference (snd r) (m_outSRS (snd r)))"
    by (cases r) (auto split: option.splits)
  then show ?thesis
    using keep by (simp add: updateBounds_keeps setSpatialReference_def)
qed

text \<open>
  C8: from options without \<open>out_srs\<close>, building the filter (constructing it, then
  initializing it) fails with the error for the missing option, whatever the upstream
  stage and the library. With \<open>out_srs\<close> and without \<open>in_srs\<close> the constructor succeeds
  and marks the input spatial reference as to be inferred, and a filter that
  \<open>initialize\<close> then accepts has the upstream's spatial reference as its input one.
\<close>

theorem options_out_srs_required:
  "(options ''out_srs'' = None \<longrightarrow>
      (ReprojectionFilter_options prev options :: error + ('h, 'c) ReprojectionFilter) =
        Inl (option_not_found ''out_srs'') \<and>
      build_filter (env :: ('h, 'c::zero) env) prev options = Inl (option_not_found ''out_srs'')) \<and>
   (\<forall>outSRS. options ''out_srs'' = Some outSRS \<and> options ''in_srs'' = None \<longrightarrow>
      (\<exists>f. ReprojectionFilter_options prev options = Inr f \<and> m_inferInputSRS f \<and>
           m_outSRS f = outSRS \<and>
           (\<forall>f'. initialize env f = (None, f') \<longrightarrow>
                 build_filter env prev options = Inr f' \<and>
                 m_inSRS f' = spatialReference (prevStage f'))))"
proof (intro conjI allI impI)
  assume "options ''out_srs'' = None"
  then show "(ReprojectionFilter_options prev options :: error + ('h, 'c) ReprojectionFilter) =
      Inl (option_not_found ''out_srs'')"
    by (simp add: ReprojectionFilter_options_def getValueOrThrow_def)
next
  assume "options ''out_srs'' = None"
  then show "build_filter env prev options = Inl (option_not_found ''out_srs'')"
    by (simp add: build_filter_def ReprojectionFilter_options_def getValueOrThrow_def)
next
  fix outSRS
  assume a: "options ''out_srs'' = Some outSRS \<and> options ''in_srs'' = None"
  let ?f = "(Filter_new prev outSRS)\<lparr>m_inferInputSRS := True\<rparr> :: ('h, 'c) ReprojectionFilter"
  have ctor: "ReprojectionFilter_options prev options = Inr ?f"
    using a by (simp add: ReprojectionFilter_options_def getValueOrThrow_def hasOption_def)
  have "build_filter env prev options = Inr f' \<and> m_inSRS f' = spatialReference (prevStage f')"
    if "initialize env ?f = (None, f')" for f'
    using that initialize_infers_inSRS [OF that] by (simp add: build_filter_def ctor)
  with ctor show "\<exists>f. ReprojectionFilter_options prev options = Inr f \<and> m_inferInputSRS f \<and>
           m_outSRS f = outSRS \<and>
           (\<forall>f'. initialize env f = (None, f') \<longrightarrow>
                 build_filter env prev options = Inr f' \<and>
                 m_inSRS f' = spatialReference (prevStage f'))"
    by (intro exI [of _ ?f]) (simp add: Filter_new_def)
qed

theorem options_out_srs_required_witness:
  "(ReprojectionFilter_options ex_prev Map.empty :: error + (unit, int) ReprojectionFilter) =
     Inl (option_not_found ''out_srs'') \<and>
   build_filter ex_env ex_prev Map.empty = Inl (option_not_found ''out_srs'') \<and>
   (\<exists>f'. build_filter ex_env ex_prev ex_options_out = Inr f' \<and>
         m_inSRS f' = ex_srs ''EPSG:26915'')"
proof -
  have none: "(Map.empty :: Options) ''out_srs'' = None" by simp
  have out: "ex_options_out ''out_srs'' = Some (ex_srs ''EPSG:4326'') \<and>
             ex_options_out ''in_srs'' = None"
    by (simp add: ex_options_out_def)
  have ctor: "ReprojectionFilter_options ex_prev ex_options_out = Inr ex_new"
    by (simp add: ReprojectionFilter_options_def getValueOrThrow_def hasOption_def
        ex_options_out_def ex_new_def ReprojectionFilter_out_def)
  have init: "initialize ex_env ex_new =
      (None, updateBounds ex_env (before_updateBounds ex_new ex_prev ()))"
    by (rule initialize_reaches_updateBounds [OF ex_new_ready])
  from options_out_srs_required [where options = Map.empty and env = ex_env and prev = ex_prev] none
  have first: "(ReprojectionFilter_options ex_prev Map.empty :: error + (unit, int) ReprojectionFilter) =
      Inl (option_not_found ''out_srs'')"
    "build_filter ex_env ex_prev Map.empty = Inl (option_not_found ''out_srs'')"
    by blast+
  from options_out_srs_required [where options = ex_options_out and env = ex_env and prev = ex_prev] out
  obtain f where f: "ReprojectionFilter_options ex_prev ex_options_out = Inr f"
    "\<forall>f'. initialize ex_env f = (None, f') \<longrightarrow>
        build_filter ex_env ex_prev ex_options_out = Inr f' \<and>
        m_inSRS f' = spatialReference (prevStage f')"
    by blast
  from f(1) ctor have "f = ex_new" by simp
  with f(2) init have
    "build_filter ex_env ex_prev ex_options_out =
       Inr (updateBounds ex_env (before_updateBounds ex_new ex_prev ()))"
    "m_inSRS (updateBounds ex_env (before_updateBounds ex_new ex_prev ())) =
       spatialReference (prevStage (updateBounds ex_env (before_updateBounds ex_new ex_prev ())))"
    by blast+
  moreover have "spatialReference (prevStage (updateBounds ex_env (before_updateBounds ex_new ex_prev ())))
      = ex_srs ''EPSG:26915''"
    by (simp add: updateBounds_keeps before_updateBounds_def ex_prev_def)
  ultimately show ?thesis using first by simp
qed

section \<open>Seeking and reading the faux reader\<close>

lemma faux_setPoint_cells:
  "m_data (faux_setPoint r position p data) q d =
     (if q = p then faux_field r position d (m_data data q d) else m_data data q d)"
  by (simp add: faux_setPoint_def faux_field_def split: prod.splits)

lemma faux_setPoint_rest:
  "getCapacity (faux_setPoint r position p data) = getCapacity data"
  "getSchemaLayout (faux_setPoint r position p data) = getSchemaLayout data"
  by (simp_all add: faux_setPoint_def split: prod.splits)

lemma faux_fill_cells:
  "m_data (faux_fill r index n p data) q d =
     (if p \<le> q \<and> q < p + n then faux_field r (index + q) d (m_data data q d)
      else m_data data q d)"
  by (induction n arbitrary: p data) (auto simp: faux_setPoint_cells setNumPoints_def)

lemma faux_fill_rest:
  "getCapacity (faux_fill r index n p data) = getCapacity data"
  "getSchemaLayout (faux_fill r index n p data) = getSchemaLayout data"
  "getNumPoints (faux_fill r index n p data) = (if n = 0 then getNumPoints data else p + n)"
  by (induction n arbitrary: p data) (auto simp: faux_setPoint_rest setNumPoints_def faux_setPoint_def split: prod.splits)

lemma Sequential_consume_index:
  "m_index (snd (Sequential_consume r it bs)) = m_index it + fst (Sequential_consume r it bs)"
proof (induction bs arbitrary: it)
  case Nil
  show ?case by simp
next
  case (Cons data rest)
  obtain n it' data' where rd: "Sequential_read r it data = (n, it', data')"
    by (cases "Sequential_read r it data")
  then have "m_index it' = m_index it + n"
    by (auto simp: Sequential_read_def faux_read_def Let_def)
  with Cons [of it'] rd show ?case
    by (auto split: prod.splits)
qed

lemma Sequential_consume_bound:
  "m_index it \<le> m_numPoints r \<Longrightarrow>
   m_index it + fst (Sequential_consume r it bs) \<le> m_numPoints r"
proof (induction bs arbitrary: it)
  case Nil
  then show ?case by simp
next
  case (Cons data rest)
  obtain n it' data' where rd: "Sequential_read r it data = (n, it', data')"
    by (cases "Sequential_read r it data")
  then have "m_index it' = m_index it + n" "m_index it + n \<le> m_numPoints r"
    using Cons.prems by (auto simp: Sequential_read_def faux_read_def Let_def)
  with Cons.IH [of it'] rd show ?case
    by (auto split: prod.splits)
qed

text \<open>Every position within range is one a sequential iterator can have consumed up to.\<close>

lemma Sequential_consume_single:
  assumes "k \<le> m_numPoints r" and "getCapacity data = k"
  shows "Sequential_consume r createIterator [data] = (k, \<lparr>m_index = k\<rparr>)"
  using assms
  by (simp add: Sequential_read_def faux_read_def Let_def createIterator_def)

text \<open>
  C6: for a reader in any mode, when a sequential iterator has consumed \<open>k\<close> points,
  a random iterator's \<open>seek(k)\<close> returns \<open>k\<close>, and a \<open>read\<close> after it gives the count
  and the buffer that the sequential iterator's next \<open>read\<close> gives; its point \<open>j\<close> holds
  in every field what point \<open>k + j\<close> of one sequential read of the whole reader holds.
\<close>

theorem seek_then_read_matches_sequential:
  assumes consumed: "Sequential_consume r createIterator bs = (k, it_s)"
    and seek: "Random_seek r it position = (newPos, it_r)" and pos: "position = k"
    and full: "m_numPoints r \<le> getCapacity whole"
  shows "k \<le> m_numPoints r \<and> newPos = k \<and>
         fst (Random_read r it_r data) = fst (Sequential_read r it_s data) \<and>
         snd (snd (Random_read r it_r data)) = snd (snd (Sequential_read r it_s data)) \<and>
         fst (Random_read r it_r data) = min (getCapacity data) (m_numPoints r - k) \<and>
         (\<forall>j d. j < fst (Random_read r it_r data) \<and> d < 4 \<longrightarrow>
            m_data (snd (snd (Random_read r it_r data))) j d =
            m_data (snd (snd (Sequential_read r createIterator whole))) (k + j) d)"
proof -
  have idx_s: "m_index it_s = k"
    using Sequential_consume_index [of r createIterator bs] consumed
    by (simp add: createIterator_def)
  have idx_r: "m_index it_r = k" and np: "newPos = k"
    using seek pos by (auto simp: Random_seek_def)
  have le: "k \<le> m_numPoints r"
    using Sequential_consume_bound [of createIterator r bs] consumed
    by (simp add: createIterator_def)
  have same: "Random_read r it_r data = (fst (Sequential_read r it_s data),
      it_r\<lparr>m_index := k + fst (Sequential_read r it_s data)\<rparr>,
      snd (snd (Sequential_read r it_s data)))"
    by (simp add: Random_read_def Sequential_read_def faux_read_def Let_def idx_s idx_r)
  have cnt: "fst (Random_read r it_r data) = min (getCapacity data) (m_numPoints r - k)"
    by (simp add: Random_read_def faux_read_def Let_def idx_r)
  have cells: "m_data (snd (snd (Random_read r it_r data))) j d =
            m_data (snd (snd (Sequential_read r createIterator whole))) (k + j) d"
    if "j < fst (Random_read r it_r data)" "d < 4" for j d
  proof -
    from that(1) cnt have j: "j < getCapacity data" "j < m_numPoints r - k" by simp_all
    then have kj: "k + j < min (getCapacity whole) (m_numPoints r)" using full by simp
    have "m_data (snd (snd (Random_read r it_r data))) j d =
        faux_field r (k + j) d (m_data data j d)"
      using j by (simp add: Random_read_def faux_read_def Let_def idx_r faux_fill_cells
          setNumPoints_def)
    moreover have "m_data (snd (snd (Sequential_read r createIterator whole))) (k + j) d =
        faux_field r (k + j) d (m_data whole (k + j) d)"
      using kj by (simp add: Sequential_read_def faux_read_def Let_def createIterator_def
          faux_fill_cells setNumPoints_def)
    moreover have "faux_field r (k + j) d u = faux_field r (k + j) d v" for u v
      using that(2) by (simp add: faux_field_def)
    ultimately show ?thesis by simp
  qed
  from le np same cnt cells show ?thesis by simp
qed

lemma double_of_nat_rat: "double_of_nat n = (of_nat n :: rat)"
  by (induction n) simp_all

lemma ex_reader_xyz:
  "faux_xyz ex_reader i =
     (1 + of_nat i * 100 / 749, 2 + of_nat i * 150 / 749, 3 + of_nat i * 200 / 749)"
  by (simp add: faux_xyz_def ex_reader_def Bounds_xyz_def ramp_def double_of_nat_rat)

theorem seek_then_read_matches_sequential_witness:
  "fst (Random_read ex_reader \<lparr>m_index = 99\<rparr> (ex_buf 10)) = 10 \<and>
   m_data (snd (snd (Random_read ex_reader \<lparr>m_index = 99\<rparr> (ex_buf 10)))) 0 0 = F64 (10649 / 749) \<and>
   m_data (snd (snd (Random_read ex_reader \<lparr>m_index = 99\<rparr> (ex_buf 10)))) 0 3 = U64 99 \<and>
   m_data (snd (snd (Random_read ex_reader \<lparr>m_index = 99\<rparr> (ex_buf 10)))) 9 3 = U64 108"
proof -
  let ?it = "\<lparr>m_index = 99\<rparr>"
  have consumed: "Sequential_consume ex_reader createIterator [ex_buf 99] = (99, ?it)"
    by (simp add: Sequential_read_def faux_read_def Let_def createIterator_def ex_reader_def
        ex_buf_def)
  have seek: "Random_seek ex_reader createIterator 99 = (99, ?it)"
    by (simp add: Random_seek_def createIterator_def)
  have full: "m_numPoints ex_reader \<le> getCapacity (ex_buf 750)"
    by (simp add: ex_reader_def ex_buf_def)
  have whole: "m_data (snd (snd (Sequential_read ex_reader createIterator (ex_buf 750)))) q d =
      (if q < 750 then faux_field ex_reader q d (U64 0) else U64 0)" for q d
    by (simp add: Sequential_read_def faux_read_def Let_def createIterator_def faux_fill_cells
        setNumPoints_def ex_reader_def ex_buf_def)
  note th = seek_then_read_matches_sequential [OF consumed seek refl full, of "ex_buf 10"]
  from th have cnt: "fst (Random_read ex_reader ?it (ex_buf 10)) = 10"
    by (simp add: ex_buf_def ex_reader_def)
  from th have every: "\<forall>j d. j < fst (Random_read ex_reader ?it (ex_buf 10)) \<and> d < 4 \<longrightarrow>
      m_data (snd (snd (Random_read ex_reader ?it (ex_buf 10)))) j d =
      m_data (snd (snd (Sequential_read ex_reader createIterator (ex_buf 750)))) (99 + j) d"
    by blast
  have cells: "m_data (snd (snd (Random_read ex_reader ?it (ex_buf 10)))) j d =
      m_data (snd (snd (Sequential_read ex_reader createIterator (ex_buf 750)))) (99 + j) d"
    if "j < 10" "d < 4" for j d
  proof -
    from that cnt have "j < fst (Random_read ex_reader ?it (ex_buf 10)) \<and> d < 4"
      by simp
    with every show ?thesis by blast
  qed
  have "m_data (snd (snd (Random_read ex_reader ?it (ex_buf 10)))) 0 0 = F64 (10649 / 749)"
    "m_data (snd (snd (Random_read ex_reader ?it (ex_buf 10)))) 0 3 = U64 99"
    "m_data (snd (snd (Random_read ex_reader ?it (ex_buf 10)))) 9 3 = U64 108"
    by (simp_all add: cells whole faux_field_def ex_reader_xyz)
  with cnt show ?thesis by simp
qed

end
